theory Spec2Isabelle
  imports Complex_Main "HOL-Library.Signed_Division"
begin

section \<open>Data model (package jira)\<close>

text \<open>
  A Go \<^verbatim>\<open>string\<close> is a sequence of bytes and is modelled as a \<^typ>\<open>string\<close>, one
  \<^typ>\<open>char\<close> per byte. A timestamp (\<^verbatim>\<open>time.Time\<close> behind \<^verbatim>\<open>jira.Time\<close>) is an instant
  counted in nanoseconds, an unbounded integer. A \<^verbatim>\<open>float64\<close> that holds a number of hours
  or a count is modelled by the real number it approximates: rounding is not modelled.
  Of each struct only the fields read by the analysis code are kept.
\<close>

type_synonym Time = int

record ChangelogHistoryItem =
  Item_Field :: string
  Item_FromString :: string
  Item_ToString :: string

record ChangelogHistory =
  History_Created :: Time
  History_Items :: "ChangelogHistoryItem list"

record Changelog =
  Changelog_Histories :: "ChangelogHistory list"

record Attachment =
  Attachment_Filename :: string

record Comment =
  Comment_Body :: string

record Comments =
  Comments_Comments :: "Comment list"

record Priority =
  Priority_ID :: string

record Fields =
  Fields_Summary :: string
  Fields_Description :: string
  Fields_Created :: Time
  Fields_Attachments :: "Attachment list"
  Fields_Comments :: Comments
  Fields_Priority :: Priority

text \<open>
  \<^verbatim>\<open>issue.Sentiment\<close> is read by \<^verbatim>\<open>SentimentScoreAnalysis\<close>; its declaration is not part
  of the sources at hand, so the two fields are taken from their use there.
\<close>

record Sentiment =
  Sentiment_HasScore :: bool
  Sentiment_Score :: real

record Issue =
  Issue_Key :: string
  Issue_Fields :: Fields
  Issue_Changelog :: Changelog
  Issue_Sentiment :: Sentiment

datatype AttachmentType = Image | Text | Code | Video

section \<open>Durations (package time, as used by calculateTimeDifference)\<close>

text \<open>
  \<^verbatim>\<open>Time.Sub\<close> yields a \<^verbatim>\<open>Duration\<close>, a signed 64-bit count of nanoseconds, and
  saturates at the smallest and the largest representable duration.
  \<^verbatim>\<open>Duration.Hours\<close> divides with truncation towards zero:
  \<^verbatim>\<open>hour := d / Hour; nsec := d % Hour; return float64(hour) + float64(nsec)/(60*60*1e9)\<close>.
\<close>

definition minDuration :: int where
  "minDuration = - (2 ^ 63)"

definition maxDuration :: int where
  "maxDuration = 2 ^ 63 - 1"

definition Hour :: int where
  "Hour = 60 * 60 * 1000000000"

definition Sub :: "Time \<Rightarrow> Time \<Rightarrow> int" where
  "Sub t u =
     (let d = t - u in
      if d < minDuration then minDuration
      else if maxDuration < d then maxDuration
      else d)"

definition Hours :: "int \<Rightarrow> real" where
  "Hours d =
     (let hour = d sdiv Hour; nsec = d smod Hour in
      real_of_int hour + real_of_int nsec / (60 * 60 * 1000000000))"

definition calculateTimeDifference :: "Time \<Rightarrow> Time \<Rightarrow> real" where
  "calculateTimeDifference t1 t2 = Hours (Sub t1 t2)"

section \<open>Text metrics (package strings, calculateNumberOfWords)\<close>

text \<open>
  \<^verbatim>\<open>strings.Split(s, sep)\<close> for a separator of one byte, which is how the code calls it
  (\<^verbatim>\<open>"\n"\<close> and \<^verbatim>\<open>" "\<close>): the pieces between the separators, so a string without
  separator, the empty string too, gives exactly one piece.
\<close>

fun Split :: "string \<Rightarrow> char \<Rightarrow> string list" where
  "Split [] sep = [[]]"
| "Split (c # cs) sep =
     (if c = sep then [] # Split cs sep
      else (case Split cs sep of
              [] \<Rightarrow> [[c]]
            | piece # pieces \<Rightarrow> (c # piece) # pieces))"

text \<open>
  \<^verbatim>\<open>strings.TrimSpace\<close> removes the leading and the trailing white space, as
  \<^verbatim>\<open>unicode.IsSpace\<close> defines it, from the UTF-8 text: the ASCII characters tab, line feed,
  vertical tab, form feed, carriage return and space, and U+0085, U+00A0, U+1680, U+2000 to
  U+200A, U+2028, U+2029, U+202F, U+205F and U+3000. The list below holds their encodings.
  A byte that belongs to no valid encoding decodes to U+FFFD, which is not white space, so
  the trimming stops there.
\<close>

definition spaceEncodings :: "string list" where
  "spaceEncodings =
     [[CHR 0x09], [CHR 0x0A], [CHR 0x0B], [CHR 0x0C], [CHR 0x0D], [CHR 0x20],
      [CHR 0xC2, CHR 0x85], [CHR 0xC2, CHR 0xA0],
      [CHR 0xE1, CHR 0x9A, CHR 0x80],
      [CHR 0xE2, CHR 0x80, CHR 0x80], [CHR 0xE2, CHR 0x80, CHR 0x81],
      [CHR 0xE2, CHR 0x80, CHR 0x82], [CHR 0xE2, CHR 0x80, CHR 0x83],
      [CHR 0xE2, CHR 0x80, CHR 0x84], [CHR 0xE2, CHR 0x80, CHR 0x85],
      [CHR 0xE2, CHR 0x80, CHR 0x86], [CHR 0xE2, CHR 0x80, CHR 0x87],
      [CHR 0xE2, CHR 0x80, CHR 0x88], [CHR 0xE2, CHR 0x80, CHR 0x89],
      [CHR 0xE2, CHR 0x80, CHR 0x8A],
      [CHR 0xE2, CHR 0x80, CHR 0xA8], [CHR 0xE2, CHR 0x80, CHR 0xA9],
      [CHR 0xE2, CHR 0x80, CHR 0xAF], [CHR 0xE2, CHR 0x81, CHR 0x9F],
      [CHR 0xE3, CHR 0x80, CHR 0x80]]"

text \<open>
  The width in bytes of the white space character that a text begins with, 0 when it begins
  with none.
\<close>

fun spaceWidth :: "string list \<Rightarrow> string \<Rightarrow> nat" where
  "spaceWidth [] s = 0"
| "spaceWidth (e # es) s = (if take (length e) s = e then length e else spaceWidth es s)"

text \<open>
  \<^verbatim>\<open>TrimLeftFunc(s, unicode.IsSpace)\<close>: white space characters are removed from the
  beginning for as long as there is one. The first argument counts the bytes of the character
  under removal that are still to be dropped.
\<close>

fun trimSpaces :: "string list \<Rightarrow> nat \<Rightarrow> string \<Rightarrow> string" where
  "trimSpaces encodings k [] = []"
| "trimSpaces encodings (Suc k) (c # cs) = trimSpaces encodings k cs"
| "trimSpaces encodings 0 (c # cs) =
     (case spaceWidth encodings (c # cs) of
        0 \<Rightarrow> c # cs
      | Suc k \<Rightarrow> trimSpaces encodings k cs)"

text \<open>
  The trailing white space is removed in the same way from the end, character by character:
  it is the leading white space of the reversed text, with every encoding reversed.
\<close>

definition TrimSpace :: "string \<Rightarrow> string" where
  "TrimSpace s =
     rev (trimSpaces (map rev spaceEncodings) 0 (rev (trimSpaces spaceEncodings 0 s)))"

fun calculateNumberOfWords_lines :: "string list \<Rightarrow> int \<Rightarrow> int" where
  "calculateNumberOfWords_lines [] wordCount = wordCount"
| "calculateNumberOfWords_lines (line # lines) wordCount =
     calculateNumberOfWords_lines lines
       (wordCount + int (length (Split (TrimSpace line) CHR '' '')))"

definition calculateNumberOfWords :: "string \<Rightarrow> int" where
  "calculateNumberOfWords s = calculateNumberOfWords_lines (Split s CHR 0x0A) 0"

text \<open>\<^verbatim>\<open>jira.CalculateNumberOfWords\<close> has the same body.\<close>

definition CalculateNumberOfWords :: "string \<Rightarrow> int" where
  "CalculateNumberOfWords s = calculateNumberOfWords_lines (Split s CHR 0x0A) 0"

section \<open>Resolution time and priority (package analyze)\<close>

definition isIssueHighPriority :: "Issue \<Rightarrow> bool" where
  "isIssueHighPriority issue =
     (Priority_ID (Fields_Priority (Issue_Fields issue)) = ''1'' \<or>
      Priority_ID (Fields_Priority (Issue_Fields issue)) = ''2'')"

text \<open>
  The inner loop of \<^verbatim>\<open>timeToResolve\<close> over the items of one history: \<^const>\<open>True\<close> when
  the \<^verbatim>\<open>return\<close> inside it is reached.
\<close>

fun timeToResolve_items :: "ChangelogHistoryItem list \<Rightarrow> bool" where
  "timeToResolve_items [] = False"
| "timeToResolve_items (item # items) =
     (if Item_Field item = ''status'' \<and> Item_FromString item = ''Open'' \<and>
         Item_ToString item = ''Closed''
      then True
      else timeToResolve_items items)"

fun timeToResolve_histories :: "Time \<Rightarrow> ChangelogHistory list \<Rightarrow> real" where
  "timeToResolve_histories created [] = - 1"
| "timeToResolve_histories created (history # histories) =
     (if timeToResolve_items (History_Items history)
      then calculateTimeDifference (History_Created history) created
      else timeToResolve_histories created histories)"

definition timeToResolve :: "Issue \<Rightarrow> real" where
  "timeToResolve issue =
     timeToResolve_histories (Fields_Created (Issue_Fields issue))
       (Changelog_Histories (Issue_Changelog issue))"

section \<open>Aggregations (package analyze)\<close>

fun comment_words :: "Comment list \<Rightarrow> int \<Rightarrow> int" where
  "comment_words [] wc = wc"
| "comment_words (comment # comments) wc =
     comment_words comments (wc + calculateNumberOfWords (Comment_Body comment))"

text \<open>
  The \<^verbatim>\<open>switch\<close> on the field selector has no default case: for any other selector
  nothing is appended to the word counts, while the time is appended all the same.
\<close>

definition WordinessAnalysis_switch :: "string \<Rightarrow> Issue \<Rightarrow> real list \<Rightarrow> real list" where
  "WordinessAnalysis_switch field issue wordCountSlice =
     (if field = ''description'' then
        wordCountSlice @
          [real_of_int (calculateNumberOfWords (Fields_Description (Issue_Fields issue)))]
      else if field = ''summary'' then
        wordCountSlice @
          [real_of_int (calculateNumberOfWords (Fields_Summary (Issue_Fields issue)))]
      else if field = ''comment'' then
        wordCountSlice @
          [real_of_int
             (comment_words (Comments_Comments (Fields_Comments (Issue_Fields issue))) 0)]
      else wordCountSlice)"

fun WordinessAnalysis_loop ::
  "string \<Rightarrow> Issue list \<Rightarrow> real list \<times> real list \<Rightarrow> real list \<times> real list" where
  "WordinessAnalysis_loop field [] acc = acc"
| "WordinessAnalysis_loop field (issue # issues) (wordCountSlice, timeDiffs) =
     (let timeDiff = timeToResolve issue in
      if timeDiff > - 1 \<and> isIssueHighPriority issue
      then WordinessAnalysis_loop field issues
             (WordinessAnalysis_switch field issue wordCountSlice, timeDiffs @ [timeDiff])
      else WordinessAnalysis_loop field issues (wordCountSlice, timeDiffs))"

definition WordinessAnalysis :: "Issue list \<Rightarrow> string \<Rightarrow> real list \<times> real list" where
  "WordinessAnalysis issues field = WordinessAnalysis_loop field issues ([], [])"

fun AttachmentsAnalysis_loop ::
  "Issue list \<Rightarrow> real list \<times> real list \<Rightarrow> real list \<times> real list" where
  "AttachmentsAnalysis_loop [] acc = acc"
| "AttachmentsAnalysis_loop (issue # issues) (withAttchTimeDiffs, withoutAttchTimeDiffs) =
     (let timeDiff = timeToResolve issue in
      if timeDiff > - 1 \<and> isIssueHighPriority issue
      then if length (Fields_Attachments (Issue_Fields issue)) > 0
           then AttachmentsAnalysis_loop issues
                  (withAttchTimeDiffs @ [timeDiff], withoutAttchTimeDiffs)
           else AttachmentsAnalysis_loop issues
                  (withAttchTimeDiffs, withoutAttchTimeDiffs @ [timeDiff])
      else AttachmentsAnalysis_loop issues (withAttchTimeDiffs, withoutAttchTimeDiffs))"

definition AttachmentsAnalysis :: "Issue list \<Rightarrow> real list \<times> real list" where
  "AttachmentsAnalysis issues = AttachmentsAnalysis_loop issues ([], [])"

fun SentimentScoreAnalysis_loop ::
  "Issue list \<Rightarrow> real list \<times> real list \<Rightarrow> real list \<times> real list" where
  "SentimentScoreAnalysis_loop [] acc = acc"
| "SentimentScoreAnalysis_loop (issue # issues) (scores, timeDiffs) =
     (let timeDiff = timeToResolve issue in
      if timeDiff > - 1 \<and> isIssueHighPriority issue \<and>
         Sentiment_HasScore (Issue_Sentiment issue)
      then SentimentScoreAnalysis_loop issues
             (scores @ [Sentiment_Score (Issue_Sentiment issue)], timeDiffs @ [timeDiff])
      else SentimentScoreAnalysis_loop issues (scores, timeDiffs))"

definition SentimentScoreAnalysis :: "Issue list \<Rightarrow> real list \<times> real list" where
  "SentimentScoreAnalysis issues = SentimentScoreAnalysis_loop issues ([], [])"

section \<open>Attachment classification (packages jira and analyze)\<close>

text \<open>Run-time panics of Go that the modelled code can raise.\<close>

datatype panic = SliceBoundsOutOfRange | NilMapAssignment

text \<open>
  \<^verbatim>\<open>strings.LastIndex(s, ".")\<close>: for a separator of one byte the library scans the
  bytes from the last to the first, \<^verbatim>\<open>for i := len(s) - 1; i >= 0; i-- { if s[i] == c
  { return i } }; return -1\<close>. The scan below is that loop, on the reversed string.
\<close>

fun LastIndex_scan :: "string \<Rightarrow> char \<Rightarrow> int" where
  "LastIndex_scan [] c = - 1"
| "LastIndex_scan (x # xs) c = (if x = c then int (length xs) else LastIndex_scan xs c)"

definition LastIndex :: "string \<Rightarrow> char \<Rightarrow> int" where
  "LastIndex s c = LastIndex_scan (rev s) c"

text \<open>The slice expression \<^verbatim>\<open>s[i:]\<close>, which panics unless \<^verbatim>\<open>0 <= i <= len(s)\<close>.\<close>

definition slice_from :: "string \<Rightarrow> int \<Rightarrow> panic + string" where
  "slice_from s i =
     (if i < 0 \<or> int (length s) < i then Inl SliceBoundsOutOfRange
      else Inr (drop (nat i) s))"

text \<open>The \<^verbatim>\<open>switch ext\<close>, which is the same in both functions.\<close>

definition switch_ext :: "string \<Rightarrow> AttachmentType" where
  "switch_ext ext =
     (if ext = ''md'' then Text
      else if ext = ''txt'' then Text
      else if ext = ''pdf'' then Text
      else if ext = ''png'' then Image
      else if ext = ''jpg'' then Image
      else if ext = ''jpeg'' then Image
      else if ext = ''gif'' then Image
      else if ext = ''bmp'' then Image
      else if ext = ''mp4'' then Video
      else if ext = ''avi'' then Video
      else if ext = ''mkv'' then Video
      else Code)"

text \<open>\<^verbatim>\<open>jira.GetAttachmentType\<close>: \<^verbatim>\<open>ext := filename[strings.LastIndex(filename, "."):]\<close>.\<close>

definition GetAttachmentType :: "string \<Rightarrow> panic + AttachmentType" where
  "GetAttachmentType filename =
     (case slice_from filename (LastIndex filename CHR ''.'') of
        Inl p \<Rightarrow> Inl p
      | Inr ext \<Rightarrow> Inr (switch_ext ext))"

text \<open>
  \<^verbatim>\<open>analyze.getAttachmentType\<close>: \<^verbatim>\<open>extIndex := strings.LastIndex(filename, ".");
  ext := filename[(extIndex + 1):]\<close>.
\<close>

definition getAttachmentType :: "string \<Rightarrow> panic + AttachmentType" where
  "getAttachmentType filename =
     (let extIndex = LastIndex filename CHR ''.'' in
      case slice_from filename (extIndex + 1) of
        Inl p \<Rightarrow> Inl p
      | Inr ext \<Rightarrow> Inr (switch_ext ext))"

section \<open>Mean resolution time per category (package plot)\<close>

text \<open>
  The result of a \<^verbatim>\<open>float64\<close> division, with the values that division by zero produces.
  The operands are finite here: a time to close is read from stored JSON, which has no
  infinity and no NaN, and the sums and counts are modelled by their exact values.
\<close>

datatype float64 = Finite real | NaN | PosInf | NegInf

definition fdiv :: "real \<Rightarrow> real \<Rightarrow> float64" where
  "fdiv x y =
     (if y = 0 then (if x = 0 then NaN else if 0 < x then PosInf else NegInf)
      else Finite (x / y))"

text \<open>
  \<^verbatim>\<open>jira.Ticket\<close> and the attachment type constants named in the plotting code are
  declared outside the sources at hand; the fields are taken from their use there.
  \<^term>\<open>OtherAttachment\<close> stands for every constant that takes the \<^verbatim>\<open>default\<close> branch.
\<close>

datatype TicketAttachmentType =
  CodeAttachment | ArchiveAttachment | ImageAttachment | ConfigAttachment |
  TextAttachment | SpreadsheetAttachment | OtherAttachment

record TicketAttachment =
  Attachment_Type :: TicketAttachmentType

record Ticket =
  Ticket_TimeToClose :: real
  Ticket_HasStepsToReproduce :: bool
  Ticket_Attachments :: "TicketAttachment list"

text \<open>
  What a plotting function does last: either it returns the error of \<^verbatim>\<open>os.Getwd\<close>, or
  it calls \<^verbatim>\<open>barchart\<close> with a title, a file path and the bars. The working directory is
  an input of the model.
\<close>

datatype oserror = GetwdError

type_synonym barchart_call = "string \<times> string \<times> (string \<times> float64) list"

datatype outcome = Panics panic | Returns oserror | Draws barchart_call

definition graphsPath :: string where
  "graphsPath = ''resources/graphs''"

definition graph_file :: "string \<Rightarrow> string \<Rightarrow> string" where
  "graph_file wd name = wd @ ''/'' @ graphsPath @ ''/'' @ name"



text \<open>
  \<^verbatim>\<open>Attachments\<close>. The maps \<^verbatim>\<open>typeCountM\<close> and \<^verbatim>\<open>typeTimeM\<close> are made with \<^verbatim>\<open>make\<close>; a
  missing key reads as zero. The map \<^verbatim>\<open>result\<close> is declared with \<^verbatim>\<open>var\<close> and never made,
  so it is the nil map, \<^const>\<open>None\<close> here, and an assignment to an entry of the nil map
  panics.
\<close>

fun Attachments_types ::
  "TicketAttachment list \<Rightarrow> real \<Rightarrow>
   (TicketAttachmentType \<rightharpoonup> int) \<times> (TicketAttachmentType \<rightharpoonup> real) \<Rightarrow>
   (TicketAttachmentType \<rightharpoonup> int) \<times> (TicketAttachmentType \<rightharpoonup> real)" where
  "Attachments_types [] t acc = acc"
| "Attachments_types (a # as) t (typeCountM, typeTimeM) =
     Attachments_types as t
       (typeCountM(Attachment_Type a \<mapsto>
          (case typeCountM (Attachment_Type a) of None \<Rightarrow> 0 | Some n \<Rightarrow> n) + 1),
        typeTimeM(Attachment_Type a \<mapsto>
          (case typeTimeM (Attachment_Type a) of None \<Rightarrow> 0 | Some x \<Rightarrow> x) + t))"

fun Attachments_loop ::
  "Ticket list \<Rightarrow>
   int \<times> real \<times> (TicketAttachmentType \<rightharpoonup> int) \<times> (TicketAttachmentType \<rightharpoonup> real) \<Rightarrow>
   int \<times> real \<times> (TicketAttachmentType \<rightharpoonup> int) \<times> (TicketAttachmentType \<rightharpoonup> real)" where
  "Attachments_loop [] acc = acc"
| "Attachments_loop (ticket # tickets) (withoutCount, withoutTime, maps) =
     (if Ticket_TimeToClose ticket \<le> 0 \<or> Ticket_TimeToClose ticket > 27000
      then Attachments_loop tickets (withoutCount, withoutTime, maps)
      else if length (Ticket_Attachments ticket) = 0
      then Attachments_loop tickets
             (withoutCount + 1, withoutTime + Ticket_TimeToClose ticket, maps)
      else Attachments_loop tickets
             (withoutCount, withoutTime,
              Attachments_types (Ticket_Attachments ticket) (Ticket_TimeToClose ticket) maps))"

definition assign_entry ::
  "(string \<times> float64) list option \<Rightarrow> string \<Rightarrow> float64 \<Rightarrow> panic + (string \<times> float64) list" where
  "assign_entry m k v =
     (case m of
        None \<Rightarrow> Inl NilMapAssignment
      | Some entries \<Rightarrow> Inr ((k, v) # filter (\<lambda>e. fst e \<noteq> k) entries))"

definition type_label :: "TicketAttachmentType \<Rightarrow> string" where
  "type_label k =
     (case k of
        CodeAttachment \<Rightarrow> ''Code''
      | ArchiveAttachment \<Rightarrow> ''Archive''
      | ImageAttachment \<Rightarrow> ''Image''
      | ConfigAttachment \<Rightarrow> ''Config''
      | TextAttachment \<Rightarrow> ''Text''
      | SpreadsheetAttachment \<Rightarrow> ''Spreadsheet''
      | OtherAttachment \<Rightarrow> ''Other'')"

fun Attachments_scores ::
  "TicketAttachmentType list \<Rightarrow> (TicketAttachmentType \<rightharpoonup> int) \<Rightarrow>
   (TicketAttachmentType \<rightharpoonup> real) \<Rightarrow> (string \<times> float64) list option \<Rightarrow>
   panic + (string \<times> float64) list option" where
  "Attachments_scores [] typeCountM typeTimeM result = Inr result"
| "Attachments_scores (k # ks) typeCountM typeTimeM result =
     (case typeCountM k of
        None \<Rightarrow> Attachments_scores ks typeCountM typeTimeM result
      | Some v \<Rightarrow>
          (case assign_entry result (type_label k)
                  (fdiv (case typeTimeM k of None \<Rightarrow> 0 | Some x \<Rightarrow> x) (real_of_int v)) of
             Inl p \<Rightarrow> Inl p
           | Inr entries \<Rightarrow> Attachments_scores ks typeCountM typeTimeM (Some entries)))"

definition Attachments :: "oserror + string \<Rightarrow> Ticket list \<Rightarrow> outcome" where
  "Attachments getwd tickets =
     (let result = None in
      case Attachments_loop tickets (0, 0, Map.empty, Map.empty) of
        (withoutCount, withoutTime, typeCountM, typeTimeM) \<Rightarrow>
          (case assign_entry result ''Without Attachments''
                  (fdiv withoutTime (real_of_int withoutCount)) of
             Inl p \<Rightarrow> Panics p
           | Inr entries \<Rightarrow>
               (case Attachments_scores
                       [CodeAttachment, ArchiveAttachment, ImageAttachment, ConfigAttachment,
                        TextAttachment, SpreadsheetAttachment, OtherAttachment]
                       typeCountM typeTimeM (Some entries) of
                  Inl p \<Rightarrow> Panics p
                | Inr result' \<Rightarrow>
                    (case getwd of
                       Inl err \<Rightarrow> Returns err
                     | Inr wd \<Rightarrow>
                         Draws (''Presence and type of attachments analysis'',
                                graph_file wd ''attachments.png'',
                                (case result' of None \<Rightarrow> [] | Some entries' \<Rightarrow> entries'))))))"

section \<open>Regular expressions (package regexp, as used by containsRegex)\<close>

text \<open>
  \<^verbatim>\<open>regexp.Compile\<close> is modelled on the fragment of the RE2 syntax that the two patterns
  of the code are written in: literal characters, \<^verbatim>\<open>.\<close> (any character but line feed),
  \<^verbatim>\<open>^\<close> (without the flag \<^verbatim>\<open>m\<close>: the beginning of the text), groups, the escapes
  \<^verbatim>\<open>\n \t \f \r\<close>, \<^verbatim>\<open>\s\<close> (tab, line feed, form feed, carriage return, space)
  and escaped punctuation, bracket expressions of single characters and escapes, and the
  repetitions \<^verbatim>\<open>*\<close>, \<^verbatim>\<open>+\<close> and \<^verbatim>\<open>{n,}\<close>. As in the library, a repetition without
  operand, a repetition of a repetition, an unbalanced parenthesis, an unclosed bracket, a
  trailing backslash and a repetition count above 1000 are errors. Syntax outside the
  fragment is answered by \<^verbatim>\<open>ErrUnsupported\<close>, which is the model's own.
  The text is matched byte by byte; the ASCII characters of the patterns never occur inside a
  multi-byte character.
\<close>

datatype citem = IChar char | IPerlSpace

datatype cset = Lit char | AnyNotNL | Class bool "citem list"

datatype regex = EmptyMatch | BeginText | Atom cset | Seq regex regex | Star regex

datatype regexError =
  ErrMissingParen | ErrUnexpectedParen | ErrMissingBracket | ErrMissingRepeatArgument |
  ErrInvalidRepeatOp | ErrInvalidRepeatSize | ErrTrailingBackslash | ErrUnsupported

datatype token = TAtom cset | TBeginText | TLParen | TRParen | TStar | TPlus | TRepeatMin nat

definition backslash :: char where
  "backslash = CHR 0x5C"

definition is_digit :: "char \<Rightarrow> bool" where
  "is_digit c = (48 \<le> (of_char c :: nat) \<and> (of_char c :: nat) \<le> 57)"

definition is_alnum :: "char \<Rightarrow> bool" where
  "is_alnum c =
     (is_digit c \<or> (65 \<le> (of_char c :: nat) \<and> (of_char c :: nat) \<le> 90) \<or>
      (97 \<le> (of_char c :: nat) \<and> (of_char c :: nat) \<le> 122))"

definition lex_escape :: "char \<Rightarrow> regexError + cset" where
  "lex_escape c =
     (if c = CHR ''n'' then Inr (Lit (CHR 0x0A))
      else if c = CHR ''t'' then Inr (Lit (CHR 0x09))
      else if c = CHR ''f'' then Inr (Lit (CHR 0x0C))
      else if c = CHR ''r'' then Inr (Lit (CHR 0x0D))
      else if c = CHR ''s'' then Inr (Class False [IPerlSpace])
      else if (of_char c :: nat) < 128 \<and> \<not> is_alnum c then Inr (Lit c)
      else Inl ErrUnsupported)"

definition lex_class_escape :: "char \<Rightarrow> regexError + citem" where
  "lex_class_escape c =
     (if c = CHR ''n'' then Inr (IChar (CHR 0x0A))
      else if c = CHR ''t'' then Inr (IChar (CHR 0x09))
      else if c = CHR ''f'' then Inr (IChar (CHR 0x0C))
      else if c = CHR ''r'' then Inr (IChar (CHR 0x0D))
      else if c = CHR ''s'' then Inr IPerlSpace
      else if (of_char c :: nat) < 128 \<and> \<not> is_alnum c then Inr (IChar c)
      else Inl ErrUnsupported)"

fun digits_value :: "string \<Rightarrow> nat \<Rightarrow> nat" where
  "digits_value [] n = n"
| "digits_value (d # ds) n = digits_value ds (10 * n + ((of_char d :: nat) - 48))"

datatype lexmode = Normal | InClass bool "citem list" | InRepeat string

definition emit :: "token \<Rightarrow> regexError + token list \<Rightarrow> regexError + token list" where
  "emit t r = (case r of Inl err \<Rightarrow> Inl err | Inr ts \<Rightarrow> Inr (t # ts))"

fun lex :: "lexmode \<Rightarrow> string \<Rightarrow> regexError + token list" where
  "lex Normal [] = Inr []"
| "lex (InClass neg items) [] = Inl ErrMissingBracket"
| "lex (InRepeat ds) [] = Inl ErrUnsupported"
| "lex Normal (c # cs) =
     (if c = backslash then
        (case cs of
           [] \<Rightarrow> Inl ErrTrailingBackslash
         | e # cs' \<Rightarrow>
             (case lex_escape e of
                Inl err \<Rightarrow> Inl err
              | Inr a \<Rightarrow> emit (TAtom a) (lex Normal cs')))
      else if c = CHR ''['' then
        (case cs of
           [] \<Rightarrow> Inl ErrMissingBracket
         | x # cs' \<Rightarrow>
             if x = CHR ''^'' then lex (InClass True []) cs' else lex (InClass False []) cs)
      else if c = CHR ''{'' then lex (InRepeat []) cs
      else if c = CHR ''|'' \<or> c = CHR ''?'' \<or> c = CHR ''$'' then Inl ErrUnsupported
      else if c = CHR ''.'' then emit (TAtom AnyNotNL) (lex Normal cs)
      else if c = CHR ''^'' then emit TBeginText (lex Normal cs)
      else if c = CHR ''('' then emit TLParen (lex Normal cs)
      else if c = CHR '')'' then emit TRParen (lex Normal cs)
      else if c = CHR ''*'' then emit TStar (lex Normal cs)
      else if c = CHR ''+'' then emit TPlus (lex Normal cs)
      else emit (TAtom (Lit c)) (lex Normal cs))"
| "lex (InClass neg items) (c # cs) =
     (if c = CHR '']'' then
        (if items = [] then Inl ErrUnsupported
         else emit (TAtom (Class neg items)) (lex Normal cs))
      else if c = backslash then
        (case cs of
           [] \<Rightarrow> Inl ErrTrailingBackslash
         | e # cs' \<Rightarrow>
             (case lex_class_escape e of
                Inl err \<Rightarrow> Inl err
              | Inr item \<Rightarrow> lex (InClass neg (items @ [item])) cs'))
      else if c = CHR ''-'' \<or> c = CHR ''['' then Inl ErrUnsupported
      else lex (InClass neg (items @ [IChar c])) cs)"
| "lex (InRepeat ds) (c # cs) =
     (if is_digit c then lex (InRepeat (ds @ [c])) cs
      else if c = CHR '','' then
        (case cs of
           [] \<Rightarrow> Inl ErrUnsupported
         | x # cs' \<Rightarrow>
             if x \<noteq> CHR ''}'' \<or> ds = [] \<or> (2 \<le> length ds \<and> hd ds = CHR ''0'')
             then Inl ErrUnsupported
             else if 1000 < digits_value ds 0 then Inl ErrInvalidRepeatSize
             else emit (TRepeatMin (digits_value ds 0)) (lex Normal cs'))
      else Inl ErrUnsupported)"

fun concat_re :: "regex list \<Rightarrow> regex" where
  "concat_re [] = EmptyMatch"
| "concat_re [r] = r"
| "concat_re (r # rs) = Seq r (concat_re rs)"

fun repeat_min :: "nat \<Rightarrow> regex \<Rightarrow> regex" where
  "repeat_min 0 r = Star r"
| "repeat_min (Suc n) r = Seq r (repeat_min n r)"

definition push_item :: "regex \<Rightarrow> regex list list \<Rightarrow> regex list list" where
  "push_item r stack = (case stack of [] \<Rightarrow> [[r]] | frame # below \<Rightarrow> (frame @ [r]) # below)"

definition repeat_last ::
  "(regex \<Rightarrow> regex) \<Rightarrow> regex list list \<Rightarrow> bool \<Rightarrow> regexError + regex list list" where
  "repeat_last f stack lastRepeat =
     (case stack of
        [] \<Rightarrow> Inl ErrMissingRepeatArgument
      | frame # below \<Rightarrow>
          if frame = [] then Inl ErrMissingRepeatArgument
          else if lastRepeat then Inl ErrInvalidRepeatOp
          else Inr ((butlast frame @ [f (last frame)]) # below))"

fun parse :: "token list \<Rightarrow> regex list list \<Rightarrow> bool \<Rightarrow> regexError + regex" where
  "parse [] stack lastRepeat =
     (case stack of [frame] \<Rightarrow> Inr (concat_re frame) | _ \<Rightarrow> Inl ErrMissingParen)"
| "parse (TAtom a # ts) stack lastRepeat = parse ts (push_item (Atom a) stack) False"
| "parse (TBeginText # ts) stack lastRepeat = parse ts (push_item BeginText stack) False"
| "parse (TLParen # ts) stack lastRepeat = parse ts ([] # stack) False"
| "parse (TRParen # ts) stack lastRepeat =
     (case stack of
        inner # outer # below \<Rightarrow> parse ts ((outer @ [concat_re inner]) # below) False
      | _ \<Rightarrow> Inl ErrUnexpectedParen)"
| "parse (TStar # ts) stack lastRepeat =
     (case repeat_last Star stack lastRepeat of
        Inl err \<Rightarrow> Inl err
      | Inr stack' \<Rightarrow> parse ts stack' True)"
| "parse (TPlus # ts) stack lastRepeat =
     (case repeat_last (\<lambda>r. Seq r (Star r)) stack lastRepeat of
        Inl err \<Rightarrow> Inl err
      | Inr stack' \<Rightarrow> parse ts stack' True)"
| "parse (TRepeatMin n # ts) stack lastRepeat =
     (case repeat_last (repeat_min n) stack lastRepeat of
        Inl err \<Rightarrow> Inl err
      | Inr stack' \<Rightarrow> parse ts stack' True)"

definition Compile :: "string \<Rightarrow> regexError + regex" where
  "Compile expr =
     (case lex Normal expr of
        Inl err \<Rightarrow> Inl err
      | Inr ts \<Rightarrow> parse ts [[]] False)"

text \<open>
  The matcher: \<^verbatim>\<open>matchEnds atStart re s\<close> lists what remains of \<^verbatim>\<open>s\<close> after each
  way of matching \<^verbatim>\<open>re\<close> at its beginning; \<^verbatim>\<open>atStart\<close> says that \<^verbatim>\<open>s\<close> is the whole text, where
  \<^verbatim>\<open>^\<close> matches. An iteration of a star that consumes nothing is not repeated.
  \<^verbatim>\<open>search\<close> tries every position of the text in turn: it is
  \<^verbatim>\<open>regex.FindStringIndex(s) != nil\<close>.
\<close>

definition perlSpace :: "char \<Rightarrow> bool" where
  "perlSpace c = (c = CHR 0x09 \<or> c = CHR 0x0A \<or> c = CHR 0x0C \<or> c = CHR 0x0D \<or> c = CHR 0x20)"

fun imatch :: "char \<Rightarrow> citem \<Rightarrow> bool" where
  "imatch c (IChar x) = (c = x)"
| "imatch c IPerlSpace = perlSpace c"

fun cmatch :: "cset \<Rightarrow> char \<Rightarrow> bool" where
  "cmatch (Lit x) c = (c = x)"
| "cmatch AnyNotNL c = (c \<noteq> CHR 0x0A)"
| "cmatch (Class neg items) c = (neg \<noteq> list_ex (imatch c) items)"

fun matchEnds :: "bool \<Rightarrow> regex \<Rightarrow> string \<Rightarrow> string list" where
  "matchEnds atStart EmptyMatch s = [s]"
| "matchEnds atStart BeginText s = (if atStart then [s] else [])"
| "matchEnds atStart (Atom a) s =
     (case s of [] \<Rightarrow> [] | c # cs \<Rightarrow> if cmatch a c then [cs] else [])"
| "matchEnds atStart (Seq r1 r2) s =
     concat (map (\<lambda>t. matchEnds (atStart \<and> length t = length s) r2 t) (matchEnds atStart r1 s))"
| "matchEnds atStart (Star r) s =
     s # concat (map (\<lambda>t. matchEnds False (Star r) t)
                  (filter (\<lambda>t. length t < length s) (matchEnds atStart r s)))"

fun search :: "bool \<Rightarrow> regex \<Rightarrow> string \<Rightarrow> bool" where
  "search atStart re [] = (matchEnds atStart re [] \<noteq> [])"
| "search atStart re (c # cs) = (matchEnds atStart re (c # cs) \<noteq> [] \<or> search False re cs)"

section \<open>Pattern detectors (package analyze)\<close>

definition containsRegex :: "string \<Rightarrow> string \<Rightarrow> bool \<times> regexError option" where
  "containsRegex s expr =
     (case Compile expr of
        Inl err \<Rightarrow> (False, Some err)
      | Inr regex \<Rightarrow> (search True regex s, None))"

text \<open>
  The pattern of \<^verbatim>\<open>HasStepsToReproduce\<close> is \<^verbatim>\<open>(\n(\s*)\*(.*)){2,}\<close>, the pattern of
  \<^verbatim>\<open>HasStackTrace\<close> is \<^verbatim>\<open>^.+Exception[^\n]+\n(\s*at.+\s*\n)+\<close>; both are raw string
  literals, so each backslash is a character of the pattern.
\<close>

definition stepsExpr :: string where
  "stepsExpr = ''('' @ [backslash] @ ''n('' @ [backslash] @ ''s*)'' @ [backslash] @ ''*(.*)){2,}''"

definition stackExpr :: string where
  "stackExpr = ''^.+Exception[^'' @ [backslash] @ ''n]+'' @ [backslash] @ ''n('' @ [backslash] @ ''s*at.+'' @ [backslash] @ ''s*'' @ [backslash] @ ''n)+''"


text \<open>The loop over the comments, which is the same in both detectors.\<close>

fun contains_in_comments :: "string \<Rightarrow> Comment list \<Rightarrow> bool \<times> regexError option" where
  "contains_in_comments expr [] = (False, None)"
| "contains_in_comments expr (comment # comments) =
     (case containsRegex (Comment_Body comment) expr of
        (contains, Some err) \<Rightarrow> (False, Some err)
      | (contains, None) \<Rightarrow>
          if contains then (True, None) else contains_in_comments expr comments)"

definition HasStepsToReproduce :: "Issue \<Rightarrow> bool \<times> regexError option" where
  "HasStepsToReproduce issue =
     (let expr = stepsExpr in
      case containsRegex (Fields_Description (Issue_Fields issue)) expr of
        (contains, Some err) \<Rightarrow> (False, Some err)
      | (contains, None) \<Rightarrow>
          if contains then (True, None)
          else contains_in_comments expr
                 (Comments_Comments (Fields_Comments (Issue_Fields issue))))"

definition HasStackTrace :: "Issue \<Rightarrow> bool \<times> regexError option" where
  "HasStackTrace issue =
     (let expr = stackExpr in
      case containsRegex (Fields_Description (Issue_Fields issue)) expr of
        (contains, Some err) \<Rightarrow> (False, Some err)
      | (contains, None) \<Rightarrow>
          if contains then (True, None)
          else contains_in_comments expr
                 (Comments_Comments (Fields_Comments (Issue_Fields issue))))"

section \<open>Notions of the specification and sample data\<close>

text \<open>
  A history qualifies when one of its items records the status going from Open to Closed,
  literally.
\<close>

definition closes_from_open :: "ChangelogHistory \<Rightarrow> bool" where
  "closes_from_open history =
     (\<exists>item \<in> set (History_Items history).
        Item_Field item = ''status'' \<and> Item_FromString item = ''Open'' \<and>
        Item_ToString item = ''Closed'')"

definition eligible :: "Issue \<Rightarrow> bool" where
  "eligible issue = (timeToResolve issue > - 1 \<and> isIssueHighPriority issue)"

definition selected_words :: "string \<Rightarrow> Issue \<Rightarrow> int" where
  "selected_words field issue =
     (if field = ''description'' then calculateNumberOfWords (Fields_Description (Issue_Fields issue))
      else if field = ''summary'' then calculateNumberOfWords (Fields_Summary (Issue_Fields issue))
      else sum_list (map (\<lambda>c. calculateNumberOfWords (Comment_Body c))
             (Comments_Comments (Fields_Comments (Issue_Fields issue)))))"

definition status_item :: "string \<Rightarrow> string \<Rightarrow> ChangelogHistoryItem" where
  "status_item from to = \<lparr>Item_Field = ''status'', Item_FromString = from, Item_ToString = to\<rparr>"

definition example_issue :: "string \<Rightarrow> ChangelogHistory list \<Rightarrow> Issue" where
  "example_issue prio histories =
     \<lparr>Issue_Key = ''A-1'',
      Issue_Fields =
        \<lparr>Fields_Summary = ''crash on start'', Fields_Description = ''it crashes'',
         Fields_Created = 1000, Fields_Attachments = [],
         Fields_Comments = \<lparr>Comments_Comments = []\<rparr>,
         Fields_Priority = \<lparr>Priority_ID = prio\<rparr>\<rparr>,
      Issue_Changelog = \<lparr>Changelog_Histories = histories\<rparr>,
      Issue_Sentiment = \<lparr>Sentiment_HasScore = True, Sentiment_Score = 1 / 2\<rparr>\<rparr>"

definition via_in_progress :: "ChangelogHistory list" where
  "via_in_progress =
     [\<lparr>History_Created = 1000, History_Items = [status_item ''Open'' ''In Progress'']\<rparr>,
      \<lparr>History_Created = 1000 + 5 * Hour, History_Items = [status_item ''In Progress'' ''Closed'']\<rparr>]"

definition closed_directly :: "ChangelogHistory list" where
  "closed_directly =
     [\<lparr>History_Created = 1000 + 5 * Hour, History_Items = [status_item ''Open'' ''Closed'']\<rparr>]"

definition word_contribution :: "string \<Rightarrow> Issue \<Rightarrow> real list" where
  "word_contribution field issue =
     (if field = ''description'' \<or> field = ''summary'' \<or> field = ''comment''
      then [real_of_int (selected_words field issue)] else [])"






text \<open>
  The two patterns as syntax trees, and the texts of an issue that the detectors read:
  the description, then the comment bodies.
\<close>

definition lits :: "string \<Rightarrow> regex \<Rightarrow> regex" where
  "lits w r = foldr (\<lambda>c. Seq (Atom (Lit c))) w r"

definition spaces_re :: regex where
  "spaces_re = Star (Atom (Class False [IPerlSpace]))"

definition some_re :: "cset \<Rightarrow> regex" where
  "some_re a = Seq (Atom a) (Star (Atom a))"

definition step_re :: regex where
  "step_re =
     Seq (Atom (Lit (CHR 0x0A)))
       (Seq spaces_re (Seq (Atom (Lit CHR ''*'')) (Star (Atom AnyNotNL))))"

definition steps_re :: regex where
  "steps_re = Seq step_re (Seq step_re (Star step_re))"

definition frame_re :: regex where
  "frame_re =
     Seq spaces_re (lits ''at'' (Seq (some_re AnyNotNL) (Seq spaces_re (Atom (Lit (CHR 0x0A))))))"

definition stack_re :: regex where
  "stack_re =
     Seq BeginText
       (Seq (some_re AnyNotNL)
          (lits ''Exception''
             (Seq (some_re (Class True [IChar (CHR 0x0A)]))
                (Seq (Atom (Lit (CHR 0x0A))) (Seq frame_re (Star frame_re))))))"

definition texts :: "Issue \<Rightarrow> string list" where
  "texts issue =
     Fields_Description (Issue_Fields issue) #
     map Comment_Body (Comments_Comments (Fields_Comments (Issue_Fields issue)))"

text \<open>
  An issue created at the zero time, which is what the JSON value null is read as, and
  closed some two thousand years later; and the mean that a plotting function hands to the
  bar chart under a label.
\<close>

definition created_at_zero_time :: Issue where
  "created_at_zero_time =
     \<lparr>Issue_Key = ''A-3'',
      Issue_Fields =
        \<lparr>Fields_Summary = ''old'', Fields_Description = ''very old'',
         Fields_Created = 0, Fields_Attachments = [],
         Fields_Comments = \<lparr>Comments_Comments = []\<rparr>,
         Fields_Priority = \<lparr>Priority_ID = ''1''\<rparr>\<rparr>,
      Issue_Changelog =
        \<lparr>Changelog_Histories =
           [\<lparr>History_Created = 63600000000000000000,
             History_Items = [status_item ''Open'' ''Closed'']\<rparr>]\<rparr>,
      Issue_Sentiment = \<lparr>Sentiment_HasScore = False, Sentiment_Score = 0\<rparr>\<rparr>"




definition issue_with_texts :: "string \<Rightarrow> string list \<Rightarrow> Issue" where
  "issue_with_texts description bodies =
     \<lparr>Issue_Key = ''A-2'',
      Issue_Fields =
        \<lparr>Fields_Summary = ''crash'', Fields_Description = description,
         Fields_Created = 0, Fields_Attachments = [],
         Fields_Comments = \<lparr>Comments_Comments = map (\<lambda>b. \<lparr>Comment_Body = b\<rparr>) bodies\<rparr>,
         Fields_Priority = \<lparr>Priority_ID = ''1''\<rparr>\<rparr>,
      Issue_Changelog = \<lparr>Changelog_Histories = []\<rparr>,
      Issue_Sentiment = \<lparr>Sentiment_HasScore = False, Sentiment_Score = 0\<rparr>\<rparr>"




text \<open>Sample texts for the stack trace detector.\<close>

definition trace_two_frames :: string where
  "trace_two_frames = ''main: Exception in run\<newline>  at a.b(C.java:1)\<newline>  at d.e(F.java:2)\<newline>''"

definition trace_one_frame :: string where
  "trace_one_frame = ''main: Exception in run\<newline>  at a.b(C.java:1)\<newline>''"

definition trace_after_intro :: string where
  "trace_after_intro = ''Log:\<newline>main: Exception in run\<newline>  at a.b(C.java:1)\<newline>  at d.e(F.java:2)\<newline>''"

definition trace_bare_exception :: string where
  "trace_bare_exception = ''java.lang.NullPointerException\<newline>  at a.b(C.java:1)\<newline>  at d.e(F.java:2)\<newline>''"

definition trace_leading_exception :: string where
  "trace_leading_exception = ''Exception in run\<newline>  at a.b(C.java:1)\<newline>  at d.e(F.java:2)\<newline>''"

section \<open>Resolution time\<close>

lemma Hours_exact: "Hours d = real_of_int d / 3600000000000"
proof -
  have "real_of_int d = real_of_int (d sdiv Hour * Hour + d smod Hour)"
    by (simp only: sdiv_mult_smod_eq)
  also have "\<dots> = real_of_int (d sdiv Hour) * 3600000000000 + real_of_int (d smod Hour)"
    by (simp add: Hour_def)
  finally show ?thesis
    by (simp add: Hours_def Let_def field_simps)
qed

lemma Sub_in_range:
  "minDuration \<le> t - u \<Longrightarrow> t - u \<le> maxDuration \<Longrightarrow> Sub t u = t - u"
  by (simp add: Sub_def Let_def)

lemma calculateTimeDifference_exact:
  "minDuration \<le> t1 - t2 \<Longrightarrow> t1 - t2 \<le> maxDuration \<Longrightarrow>
   calculateTimeDifference t1 t2 = real_of_int (t1 - t2) / 3600000000000"
  by (simp add: calculateTimeDifference_def Sub_in_range Hours_exact)

lemma timeToResolve_items_iff:
  "timeToResolve_items items =
     (\<exists>item \<in> set items. Item_Field item = ''status'' \<and> Item_FromString item = ''Open'' \<and>
        Item_ToString item = ''Closed'')"
  by (induction items) auto

lemma timeToResolve_items_closes:
  "timeToResolve_items (History_Items history) = closes_from_open history"
  by (simp add: closes_from_open_def timeToResolve_items_iff)

lemma timeToResolve_histories_find:
  "timeToResolve_histories created histories =
     (case find closes_from_open histories of
        None \<Rightarrow> - 1
      | Some history \<Rightarrow> calculateTimeDifference (History_Created history) created)"
  by (induction histories) (simp_all add: timeToResolve_items_closes)

lemma timeToResolve_unresolved:
  "\<forall>history \<in> set (Changelog_Histories (Issue_Changelog issue)). \<not> closes_from_open history \<Longrightarrow>
   timeToResolve issue = - 1"
proof -
  assume "\<forall>history \<in> set (Changelog_Histories (Issue_Changelog issue)). \<not> closes_from_open history"
  then have "find closes_from_open (Changelog_Histories (Issue_Changelog issue)) = None"
    by (simp add: find_None_iff)
  then show ?thesis
    by (simp add: timeToResolve_def timeToResolve_histories_find)
qed

lemma Sub_saturated: "Sub t u = max minDuration (min maxDuration (t - u))"
  by (simp add: Sub_def Let_def minDuration_def maxDuration_def)

lemma calculateTimeDifference_saturated:
  "calculateTimeDifference t1 t2 =
     real_of_int (max minDuration (min maxDuration (t1 - t2))) / 3600000000000"
  by (simp only: calculateTimeDifference_def Sub_saturated Hours_exact)

section \<open>Aggregations\<close>

lemma comment_words_sum:
  "comment_words comments wc =
     wc + sum_list (map (\<lambda>c. calculateNumberOfWords (Comment_Body c)) comments)"
  by (induction comments arbitrary: wc) simp_all

lemma WordinessAnalysis_switch_contribution:
  "WordinessAnalysis_switch field issue wordCountSlice =
     wordCountSlice @ word_contribution field issue"
  by (simp add: WordinessAnalysis_switch_def word_contribution_def selected_words_def
      comment_words_sum)

lemma WordinessAnalysis_loop_filter:
  "WordinessAnalysis_loop field issues (wordCountSlice, timeDiffs) =
     (wordCountSlice @ concat (map (word_contribution field) (filter eligible issues)),
      timeDiffs @ map timeToResolve (filter eligible issues))"
  by (induction issues arbitrary: wordCountSlice timeDiffs)
     (simp_all add: Let_def eligible_def WordinessAnalysis_switch_contribution)

lemma AttachmentsAnalysis_loop_filter:
  "AttachmentsAnalysis_loop issues (withAttch, withoutAttch) =
     (withAttch @ map timeToResolve
        (filter (\<lambda>i. eligible i \<and> Fields_Attachments (Issue_Fields i) \<noteq> []) issues),
      withoutAttch @ map timeToResolve
        (filter (\<lambda>i. eligible i \<and> Fields_Attachments (Issue_Fields i) = []) issues))"
  by (induction issues arbitrary: withAttch withoutAttch)
     (simp_all add: Let_def eligible_def)

lemma SentimentScoreAnalysis_loop_filter:
  "SentimentScoreAnalysis_loop issues (scores, timeDiffs) =
     (scores @ map (\<lambda>i. Sentiment_Score (Issue_Sentiment i))
        (filter (\<lambda>i. eligible i \<and> Sentiment_HasScore (Issue_Sentiment i)) issues),
      timeDiffs @ map timeToResolve
        (filter (\<lambda>i. eligible i \<and> Sentiment_HasScore (Issue_Sentiment i)) issues))"
  by (induction issues arbitrary: scores timeDiffs)
     (simp_all add: Let_def eligible_def)

lemma not_eligible:
  "(\<forall>history \<in> set (Changelog_Histories (Issue_Changelog issue)). \<not> closes_from_open history) \<or>
   \<not> (Priority_ID (Fields_Priority (Issue_Fields issue)) = ''1'' \<or>
      Priority_ID (Fields_Priority (Issue_Fields issue)) = ''2'') \<Longrightarrow>
   \<not> eligible issue"
  by (auto simp: eligible_def isIssueHighPriority_def dest: timeToResolve_unresolved)

lemma closed_directly_eligible_help:
  "timeToResolve (example_issue p closed_directly) = 5"
  by (simp add: timeToResolve_def example_issue_def closed_directly_def status_item_def
      calculateTimeDifference_exact Hour_def minDuration_def maxDuration_def)

lemma word_contribution_supported:
  "field = ''description'' \<or> field = ''summary'' \<or> field = ''comment'' \<Longrightarrow>
   concat (map (word_contribution field) issues) =
     map (\<lambda>i. real_of_int (selected_words field i)) issues"
  by (induction issues) (simp_all add: word_contribution_def)

lemma word_contribution_unsupported:
  "field \<noteq> ''description'' \<and> field \<noteq> ''summary'' \<and> field \<noteq> ''comment'' \<Longrightarrow>
   concat (map (word_contribution field) issues) = []"
  by (induction issues) (simp_all add: word_contribution_def)

section \<open>Word count\<close>

lemma Split_not_Nil: "Split s sep \<noteq> []"
  by (induction s) (auto split: list.splits)

lemma Split_snoc: "Split (s @ [sep]) sep = Split s sep @ [[]]"
  using Split_not_Nil by (induction s) (auto split: list.splits)

lemma calculateNumberOfWords_lines_append:
  "calculateNumberOfWords_lines (xs @ ys) n =
     calculateNumberOfWords_lines ys (calculateNumberOfWords_lines xs n)"
  by (induction xs arbitrary: n) simp_all

lemma blank_line_adds_one:
  "calculateNumberOfWords (s @ [CHR 0x0A]) = calculateNumberOfWords s + 1"
  by (simp add: calculateNumberOfWords_def Split_snoc calculateNumberOfWords_lines_append
      TrimSpace_def)

lemma TrimSpace_unicode_space:
  "TrimSpace ('' '' @ [CHR 0xC2, CHR 0xA0] @ '' a'' @ [CHR 0xE2, CHR 0x80, CHR 0xA8] @ '' '') = ''a''"
  by (simp add: TrimSpace_def spaceEncodings_def)

section \<open>Attachment classification\<close>

lemma LastIndex_scan_absent: "c \<notin> set xs \<Longrightarrow> LastIndex_scan xs c = - 1"
  by (induction xs) auto

lemma LastIndex_scan_found:
  "c \<notin> set xs \<Longrightarrow> LastIndex_scan (xs @ c # ys) c = int (length ys)"
  by (induction xs) auto

lemma LastIndex_absent: "c \<notin> set s \<Longrightarrow> LastIndex s c = - 1"
  by (simp add: LastIndex_def LastIndex_scan_absent)

lemma LastIndex_found: "c \<notin> set ext \<Longrightarrow> LastIndex (stem @ c # ext) c = int (length stem)"
  by (simp add: LastIndex_def LastIndex_scan_found)

lemma LastIndex_range: "- 1 \<le> LastIndex s c \<and> LastIndex s c < int (length s)"
proof -
  have "- 1 \<le> LastIndex_scan xs c \<and> LastIndex_scan xs c < int (length xs)" for xs
    by (induction xs) auto
  from this [of "rev s"] show ?thesis by (simp add: LastIndex_def)
qed

lemma getAttachmentType_total: "\<exists>t. getAttachmentType filename = Inr t"
  using LastIndex_range [of filename "CHR ''.''"]
  by (simp add: getAttachmentType_def Let_def slice_from_def)

lemma getAttachmentType_no_dot:
  "CHR ''.'' \<notin> set filename \<Longrightarrow> getAttachmentType filename = Inr (switch_ext filename)"
  by (simp add: getAttachmentType_def Let_def slice_from_def LastIndex_absent)

lemma getAttachmentType_dot:
  "CHR ''.'' \<notin> set ext \<Longrightarrow>
   getAttachmentType (stem @ CHR ''.'' # ext) = Inr (switch_ext ext)"
proof -
  assume n: "CHR ''.'' \<notin> set ext"
  have "nat (int (length stem) + 1) = Suc (length stem)" by simp
  with n show ?thesis
    by (simp add: getAttachmentType_def Let_def slice_from_def LastIndex_found)
qed

lemma if_same_branch:
  "(if p then x else if q then x else y) = (if p \<or> q then x else y)"
  by simp

lemma switch_ext_sets:
  "switch_ext ext =
     (if ext \<in> {''md'', ''txt'', ''pdf''} then Text
      else if ext \<in> {''png'', ''jpg'', ''jpeg'', ''gif'', ''bmp''} then Image
      else if ext \<in> {''mp4'', ''avi'', ''mkv''} then Video
      else Code)"
  unfolding switch_ext_def
  by (simp only: if_same_branch insert_iff empty_iff HOL.simp_thms)

lemma GetAttachmentType_with_dot:
  "CHR ''.'' \<in> set filename \<Longrightarrow> GetAttachmentType filename = Inr Code"
proof -
  assume "CHR ''.'' \<in> set filename"
  then obtain stem ext where f: "filename = stem @ CHR ''.'' # ext" and n: "CHR ''.'' \<notin> set ext"
    by (auto dest: split_list_last)
  have "switch_ext (CHR ''.'' # ext) = Code"
    by (simp add: switch_ext_def)
  with f n show ?thesis
    by (simp add: GetAttachmentType_def slice_from_def LastIndex_found)
qed

section \<open>Means per category\<close>


lemma Attachments_panics: "Attachments getwd tickets = Panics NilMapAssignment"
  by (simp add: Attachments_def assign_entry_def split: prod.splits)




section \<open>Pattern detectors\<close>

lemma Compile_stepsExpr: "Compile stepsExpr = Inr steps_re"
  by (simp add: Compile_def stepsExpr_def steps_re_def step_re_def spaces_re_def backslash_def
      emit_def lex_escape_def is_alnum_def is_digit_def push_item_def repeat_last_def
      numeral_2_eq_2)

lemma Compile_stackExpr: "Compile stackExpr = Inr stack_re"
  by (simp add: Compile_def stackExpr_def stack_re_def frame_re_def spaces_re_def some_re_def
      lits_def backslash_def emit_def lex_escape_def lex_class_escape_def is_alnum_def
      is_digit_def push_item_def repeat_last_def)

lemma containsRegex_compiled:
  "Compile expr = Inr re \<Longrightarrow> containsRegex s expr = (search True re s, None)"
  by (simp add: containsRegex_def)

lemma contains_in_comments_compiled:
  "Compile expr = Inr re \<Longrightarrow>
   contains_in_comments expr comments =
     (list_ex (\<lambda>c. search True re (Comment_Body c)) comments, None)"
  by (induction comments) (simp_all add: containsRegex_compiled)

lemma HasStepsToReproduce_search:
  "HasStepsToReproduce issue = (list_ex (search True steps_re) (texts issue), None)"
  by (simp add: HasStepsToReproduce_def texts_def containsRegex_compiled [OF Compile_stepsExpr]
      contains_in_comments_compiled [OF Compile_stepsExpr] list_ex_iff)

lemma HasStackTrace_search:
  "HasStackTrace issue = (list_ex (search True stack_re) (texts issue), None)"
  by (simp add: HasStackTrace_def texts_def containsRegex_compiled [OF Compile_stackExpr]
      contains_in_comments_compiled [OF Compile_stackExpr] list_ex_iff)

section \<open>What the two patterns match\<close>

text \<open>The equation of the star calls the matcher on the star again: it is unfolded by hand.\<close>

declare matchEnds.simps(5) [simp del]

lemma mem_Seq:
  "u \<in> set (matchEnds b (Seq r1 r2) s) \<longleftrightarrow>
     (\<exists>t. t \<in> set (matchEnds b r1 s) \<and>
          u \<in> set (matchEnds (b \<and> length t = length s) r2 t))"
  by auto

lemma mem_Atom:
  "u \<in> set (matchEnds b (Atom a) s) \<longleftrightarrow> (\<exists>c. s = c # u \<and> cmatch a c)"
  by (cases s) auto

lemma mem_Star:
  "u \<in> set (matchEnds b (Star r) s) \<longleftrightarrow>
     u = s \<or> (\<exists>t \<in> set (matchEnds b r s). length t < length s \<and>
                 u \<in> set (matchEnds False (Star r) t))"
  apply (subst matchEnds.simps(5))
  apply (simp only: set_simps set_concat set_map set_filter)
  apply blast
  done

lemma mem_Star_self: "s \<in> set (matchEnds b (Star r) s)"
  by (subst mem_Star) simp

lemma mem_Star_Atom:
  "u \<in> set (matchEnds b (Star (Atom a)) s) \<longleftrightarrow> (\<exists>m. s = m @ u \<and> list_all (cmatch a) m)"
proof (induction s arbitrary: b)
  case Nil
  show ?case by (auto simp: mem_Star [of u b "Atom a" "[]"])
next
  case (Cons c s)
  have "u \<in> set (matchEnds b (Star (Atom a)) (c # s)) \<longleftrightarrow>
          u = c # s \<or> (cmatch a c \<and> u \<in> set (matchEnds False (Star (Atom a)) s))"
    by (auto simp: mem_Star [of u b "Atom a" "c # s"])
  also have "\<dots> \<longleftrightarrow> u = c # s \<or> (cmatch a c \<and> (\<exists>m. s = m @ u \<and> list_all (cmatch a) m))"
    by (simp only: Cons.IH)
  also have "\<dots> \<longleftrightarrow> (\<exists>m. c # s = m @ u \<and> list_all (cmatch a) m)"
  proof
    assume "u = c # s \<or> (cmatch a c \<and> (\<exists>m. s = m @ u \<and> list_all (cmatch a) m))"
    then show "\<exists>m. c # s = m @ u \<and> list_all (cmatch a) m"
    proof
      assume "u = c # s"
      then have "c # s = [] @ u \<and> list_all (cmatch a) []" by simp
      then show ?thesis by blast
    next
      assume "cmatch a c \<and> (\<exists>m. s = m @ u \<and> list_all (cmatch a) m)"
      then obtain m where "s = m @ u" "list_all (cmatch a) m" "cmatch a c" by blast
      then have "c # s = (c # m) @ u \<and> list_all (cmatch a) (c # m)" by simp
      then show ?thesis by blast
    qed
  next
    assume "\<exists>m. c # s = m @ u \<and> list_all (cmatch a) m"
    then obtain m where m: "c # s = m @ u" "list_all (cmatch a) m" by blast
    show "u = c # s \<or> (cmatch a c \<and> (\<exists>m. s = m @ u \<and> list_all (cmatch a) m))"
    proof (cases m)
      case Nil
      with m show ?thesis by simp
    next
      case (Cons x m')
      with m show ?thesis by auto
    qed
  qed
  finally show ?case .
qed


lemma not_nl_iff: "list_all (\<lambda>c. c \<noteq> CHR 0x0A) m \<longleftrightarrow> CHR 0x0A \<notin> set m"
  by (induction m) auto

lemma mem_spaces:
  "u \<in> set (matchEnds b spaces_re s) \<longleftrightarrow> (\<exists>ws. s = ws @ u \<and> list_all perlSpace ws)"
proof -
  have "cmatch (Class False [IPerlSpace]) = perlSpace" by (rule ext) simp
  then show ?thesis by (simp add: spaces_re_def mem_Star_Atom)
qed


lemma mem_some:
  "u \<in> set (matchEnds b (some_re a) s) \<longleftrightarrow>
     (\<exists>m. s = m @ u \<and> m \<noteq> [] \<and> list_all (cmatch a) m)"
proof
  assume "u \<in> set (matchEnds b (some_re a) s)"
  then obtain c t m where "s = c # t" "cmatch a c" "t = m @ u" "list_all (cmatch a) m"
    unfolding some_re_def mem_Seq mem_Atom mem_Star_Atom by blast
  then have "s = (c # m) @ u \<and> c # m \<noteq> [] \<and> list_all (cmatch a) (c # m)" by simp
  then show "\<exists>m. s = m @ u \<and> m \<noteq> [] \<and> list_all (cmatch a) m" by blast
next
  assume "\<exists>m. s = m @ u \<and> m \<noteq> [] \<and> list_all (cmatch a) m"
  then obtain c m where "s = c # (m @ u)" "cmatch a c" "list_all (cmatch a) m"
    by (auto simp: neq_Nil_conv)
  then show "u \<in> set (matchEnds b (some_re a) s)"
    unfolding some_re_def mem_Seq mem_Atom mem_Star_Atom by blast
qed

lemma mem_some_not_nl:
  "u \<in> set (matchEnds b (some_re AnyNotNL) s) \<longleftrightarrow>
     (\<exists>m. s = m @ u \<and> m \<noteq> [] \<and> CHR 0x0A \<notin> set m)"
  "u \<in> set (matchEnds b (some_re (Class True [IChar (CHR 0x0A)])) s) \<longleftrightarrow>
     (\<exists>m. s = m @ u \<and> m \<noteq> [] \<and> CHR 0x0A \<notin> set m)"
proof -
  have "cmatch AnyNotNL = (\<lambda>c. c \<noteq> CHR 0x0A)" by (rule ext) simp
  then show "u \<in> set (matchEnds b (some_re AnyNotNL) s) \<longleftrightarrow>
     (\<exists>m. s = m @ u \<and> m \<noteq> [] \<and> CHR 0x0A \<notin> set m)"
    by (simp add: mem_some not_nl_iff)
  have "cmatch (Class True [IChar (CHR 0x0A)]) = (\<lambda>c. c \<noteq> CHR 0x0A)" by (rule ext) simp
  then show "u \<in> set (matchEnds b (some_re (Class True [IChar (CHR 0x0A)])) s) \<longleftrightarrow>
     (\<exists>m. s = m @ u \<and> m \<noteq> [] \<and> CHR 0x0A \<notin> set m)"
    by (simp add: mem_some not_nl_iff)
qed

lemma mem_lits:
  "u \<in> set (matchEnds b (lits w r) s) \<longleftrightarrow>
     (\<exists>t. s = w @ t \<and> u \<in> set (matchEnds (b \<and> w = []) r t))"
proof (induction w arbitrary: b s)
  case Nil
  show ?case by (simp add: lits_def)
next
  case (Cons c w)
  have "lits (c # w) r = Seq (Atom (Lit c)) (lits w r)" by (simp add: lits_def)
  then show ?case
    unfolding mem_Seq mem_Atom using Cons.IH by auto
qed







lemma mem_frame:
  "u \<in> set (matchEnds b frame_re s) \<longleftrightarrow>
     (\<exists>ws fr ws'. s = ws @ ''at'' @ fr @ ws' @ CHR 0x0A # u \<and> list_all perlSpace ws \<and>
        fr \<noteq> [] \<and> CHR 0x0A \<notin> set fr \<and> list_all perlSpace ws')"
  unfolding frame_re_def mem_Seq mem_lits mem_spaces mem_some_not_nl mem_Atom
  by auto

lemma mem_frames:
  "(\<exists>u. u \<in> set (matchEnds b (Seq frame_re (Star frame_re)) s)) \<longleftrightarrow>
     (\<exists>u. u \<in> set (matchEnds b frame_re s))"
  unfolding mem_Seq using mem_Star_self by blast

lemma mem_Lit: "u \<in> set (matchEnds b (Atom (Lit x)) s) \<longleftrightarrow> s = x # u"
  by (auto simp: mem_Atom)

lemma Seq_BeginText_start: "matchEnds True (Seq BeginText r) s = matchEnds True r s"
  by (subst matchEnds.simps(4)) simp

lemma mem_BeginText: "t \<in> set (matchEnds b BeginText s) \<longleftrightarrow> b \<and> t = s"
  by auto

lemma stack_match_start:
  "matchEnds True stack_re s \<noteq> [] \<longleftrightarrow>
     (\<exists>pre post ws fr ws' rest.
        s = pre @ ''Exception'' @ post @ CHR 0x0A # ws @ ''at'' @ fr @ ws' @ CHR 0x0A # rest \<and>
        pre \<noteq> [] \<and> CHR 0x0A \<notin> set pre \<and> post \<noteq> [] \<and> CHR 0x0A \<notin> set post \<and>
        list_all perlSpace ws \<and> fr \<noteq> [] \<and> CHR 0x0A \<notin> set fr \<and> list_all perlSpace ws')"
  (is "?L \<longleftrightarrow> ?R")
proof
  assume ?L
  then obtain u where "u \<in> set (matchEnds True stack_re s)"
    by (cases "matchEnds True stack_re s") auto
  then obtain t1 b1 where t1: "t1 \<in> set (matchEnds True (some_re AnyNotNL) s)"
    and u1: "u \<in> set (matchEnds b1
               (lits ''Exception''
                  (Seq (some_re (Class True [IChar (CHR 0x0A)]))
                     (Seq (Atom (Lit (CHR 0x0A))) (Seq frame_re (Star frame_re))))) t1)"
    unfolding stack_re_def mem_Seq [of u True BeginText] mem_BeginText
      mem_Seq [of u _ "some_re AnyNotNL"]
    by auto
  from t1 obtain pre where pre: "s = pre @ t1" "pre \<noteq> []" "CHR 0x0A \<notin> set pre"
    unfolding mem_some_not_nl by blast
  from u1 obtain t2 b2 where t2: "t1 = ''Exception'' @ t2"
    and u2: "u \<in> set (matchEnds b2
               (Seq (some_re (Class True [IChar (CHR 0x0A)]))
                  (Seq (Atom (Lit (CHR 0x0A))) (Seq frame_re (Star frame_re)))) t2)"
    unfolding mem_lits by blast
  from u2 obtain t3 b3 where t3: "t3 \<in> set (matchEnds b2 (some_re (Class True [IChar (CHR 0x0A)])) t2)"
    and u3: "u \<in> set (matchEnds b3 (Seq (Atom (Lit (CHR 0x0A))) (Seq frame_re (Star frame_re))) t3)"
    unfolding mem_Seq [of u b2 "some_re (Class True [IChar (CHR 0x0A)])"] by blast
  from t3 obtain post where post: "t2 = post @ t3" "post \<noteq> []" "CHR 0x0A \<notin> set post"
    unfolding mem_some_not_nl by blast
  from u3 obtain t4 b4 where t4: "t3 = CHR 0x0A # t4"
    and u4: "u \<in> set (matchEnds b4 (Seq frame_re (Star frame_re)) t4)"
    unfolding mem_Seq [of u b3 "Atom (Lit (CHR 0x0A))"] mem_Lit by blast
  from u4 obtain t5 where "t5 \<in> set (matchEnds b4 frame_re t4)"
    using mem_frames [of b4 t4] by blast
  then obtain ws fr ws' where fr: "t4 = ws @ ''at'' @ fr @ ws' @ CHR 0x0A # t5"
    "list_all perlSpace ws" "fr \<noteq> []" "CHR 0x0A \<notin> set fr" "list_all perlSpace ws'"
    unfolding mem_frame by blast
  have "s = pre @ ''Exception'' @ post @ CHR 0x0A # ws @ ''at'' @ fr @ ws' @ CHR 0x0A # t5"
    using pre(1) t2 post(1) t4 fr(1) by simp
  with pre(2,3) post(2,3) fr(2-5) show ?R by blast
next
  assume ?R
  then obtain pre post ws fr ws' rest where
    s: "s = pre @ ''Exception'' @ post @ CHR 0x0A # ws @ ''at'' @ fr @ ws' @ CHR 0x0A # rest"
    and p: "pre \<noteq> []" "CHR 0x0A \<notin> set pre" "post \<noteq> []" "CHR 0x0A \<notin> set post"
      "list_all perlSpace ws" "fr \<noteq> []" "CHR 0x0A \<notin> set fr" "list_all perlSpace ws'"
    by blast
  let ?t4 = "ws @ ''at'' @ fr @ ws' @ CHR 0x0A # rest"
  let ?t3 = "CHR 0x0A # ?t4"
  let ?t2 = "post @ ?t3"
  let ?t1 = "''Exception'' @ ?t2"
  have f: "rest \<in> set (matchEnds b frame_re ?t4)" for b
    unfolding mem_frame using p by blast
  have "\<exists>u. u \<in> set (matchEnds b (Seq frame_re (Star frame_re)) ?t4)" for b
    using f mem_frames by blast
  then obtain u where u4: "u \<in> set (matchEnds False (Seq frame_re (Star frame_re)) ?t4)"
    by blast
  have u3: "u \<in> set (matchEnds b (Seq (Atom (Lit (CHR 0x0A))) (Seq frame_re (Star frame_re))) ?t3)"
    for b
  proof -
    have "u \<in> set (matchEnds (b \<and> length ?t4 = length ?t3)
                 (Seq frame_re (Star frame_re)) ?t4)"
      using u4 by simp
    then show ?thesis
      unfolding mem_Seq [of u b "Atom (Lit (CHR 0x0A))"] mem_Lit by blast
  qed
  have t3: "?t3 \<in> set (matchEnds b (some_re (Class True [IChar (CHR 0x0A)])) ?t2)" for b
    unfolding mem_some_not_nl using p by blast
  have post_len: "length ?t3 \<noteq> length ?t2" using p(3) by simp
  have u2: "u \<in> set (matchEnds b
               (Seq (some_re (Class True [IChar (CHR 0x0A)]))
                  (Seq (Atom (Lit (CHR 0x0A))) (Seq frame_re (Star frame_re)))) ?t2)" for b
    unfolding mem_Seq [of u b "some_re (Class True [IChar (CHR 0x0A)])"]
    using t3 [of b] u3 by blast
  have u1: "u \<in> set (matchEnds b
               (lits ''Exception''
                  (Seq (some_re (Class True [IChar (CHR 0x0A)]))
                     (Seq (Atom (Lit (CHR 0x0A))) (Seq frame_re (Star frame_re))))) ?t1)" for b
    unfolding mem_lits using u2 by blast
  have t1: "?t1 \<in> set (matchEnds True (some_re AnyNotNL) s)"
    unfolding mem_some_not_nl using p s by blast
  have "u \<in> set (matchEnds True
               (Seq (some_re AnyNotNL)
                  (lits ''Exception''
                     (Seq (some_re (Class True [IChar (CHR 0x0A)]))
                        (Seq (Atom (Lit (CHR 0x0A))) (Seq frame_re (Star frame_re)))))) s)"
    unfolding mem_Seq [of u _ "some_re AnyNotNL"] using t1 u1 by blast
  then have "u \<in> set (matchEnds True stack_re s)"
    unfolding stack_re_def by (simp only: Seq_BeginText_start)
  then show ?L by (cases "matchEnds True stack_re s") simp_all
qed

lemma stack_match_later: "matchEnds False stack_re s = []"
  by (simp add: stack_re_def)

lemma stack_search: "search True stack_re s \<longleftrightarrow> matchEnds True stack_re s \<noteq> []"
proof -
  have "\<not> search False stack_re t" for t
    by (induction t) (simp_all add: stack_match_later)
  then show ?thesis by (cases s) simp_all
qed

section \<open>Bullet lines\<close>








lemma texts_issue_with_texts: "texts (issue_with_texts d bs) = d # bs"
  by (simp add: texts_def issue_with_texts_def comp_def)




section \<open>Sample stack traces\<close>

lemma trace_one_frame_shape:
  "trace_one_frame =
     ''main: '' @ ''Exception'' @ '' in run'' @ CHR 0x0A # ''  '' @ ''at'' @ '' a.b(C.java:1)'' @
       CHR 0x0A # []"
  by (simp add: trace_one_frame_def)

lemma trace_two_frames_shape:
  "trace_two_frames =
     ''main: '' @ ''Exception'' @ '' in run'' @ CHR 0x0A # ''  '' @ ''at'' @ '' a.b(C.java:1)'' @
       CHR 0x0A # ''  at d.e(F.java:2)\<newline>''"
  by (simp add: trace_two_frames_def)

lemma trace_parts:
  "''main: '' \<noteq> [] \<and> CHR 0x0A \<notin> set ''main: '' \<and> '' in run'' \<noteq> [] \<and>
   CHR 0x0A \<notin> set '' in run'' \<and> list_all perlSpace ''  '' \<and> '' a.b(C.java:1)'' \<noteq> [] \<and>
   CHR 0x0A \<notin> set '' a.b(C.java:1)''"
  by (simp add: perlSpace_def)

text \<open>
  Claim C1, amended. \<^verbatim>\<open>timeToResolve\<close> scans the histories in stored order. Its result
  is the number of hours from the creation of the issue to the creation of the first history
  that has an item with field status, from Open, to Closed, the difference being held to the
  range of a duration, 64 bits of nanoseconds, before it is turned into hours; when no
  history has such an item, in particular for the empty log, the result is the sentinel -1.
  A transition that is not literally from Open to Closed does not qualify.
\<close>

theorem timeToResolve_first_closing_saturated:
  "timeToResolve issue =
     (case find closes_from_open (Changelog_Histories (Issue_Changelog issue)) of
        None \<Rightarrow> - 1
      | Some history \<Rightarrow>
          real_of_int
            (max minDuration
               (min maxDuration
                  (History_Created history - Fields_Created (Issue_Fields issue)))) /
          3600000000000)"
  by (simp add: timeToResolve_def timeToResolve_histories_find
      calculateTimeDifference_saturated split: option.split)

theorem timeToResolve_first_closing_saturated_witness:
  "timeToResolve (example_issue ''1'' via_in_progress) = - 1 \<and>
   timeToResolve (example_issue ''1'' closed_directly) = 5 \<and>
   timeToResolve (example_issue ''1'' []) = - 1 \<and>
   timeToResolve created_at_zero_time = 9223372036854775807 / 3600000000000"
  using timeToResolve_first_closing_saturated [of "example_issue ''1'' via_in_progress"]
    timeToResolve_first_closing_saturated [of "example_issue ''1'' closed_directly"]
    timeToResolve_first_closing_saturated [of "example_issue ''1'' []"]
    timeToResolve_first_closing_saturated [of created_at_zero_time]
  by (simp add: example_issue_def via_in_progress_def closed_directly_def status_item_def
      created_at_zero_time_def closes_from_open_def Hour_def minDuration_def maxDuration_def)

theorem elapsed_hours_counterexample:
  "Fields_Created (Issue_Fields created_at_zero_time) = 0 \<and>
   map History_Created (Changelog_Histories (Issue_Changelog created_at_zero_time)) =
     [63600000000000000000] \<and>
   timeToResolve created_at_zero_time = 9223372036854775807 / 3600000000000 \<and>
   timeToResolve created_at_zero_time \<noteq> real_of_int (63600000000000000000 - 0) / 3600000000000"
  by (simp add: timeToResolve_def timeToResolve_histories_find
      calculateTimeDifference_saturated created_at_zero_time_def status_item_def
      closes_from_open_def minDuration_def maxDuration_def)

text \<open>
  Claim C2. An issue whose changelog has no status item from Open to Closed, or whose
  priority ID is neither 1 (Critical) nor 2 (Major), contributes nothing to the series of
  \<^verbatim>\<open>WordinessAnalysis\<close>, \<^verbatim>\<open>AttachmentsAnalysis\<close> and \<^verbatim>\<open>SentimentScoreAnalysis\<close>: wherever
  it stands in the list, the results are those of the list without it.
\<close>

theorem ineligible_issue_contributes_nothing:
  assumes "(\<forall>history \<in> set (Changelog_Histories (Issue_Changelog issue)).
              \<not> closes_from_open history) \<or>
           \<not> (Priority_ID (Fields_Priority (Issue_Fields issue)) = ''1'' \<or>
              Priority_ID (Fields_Priority (Issue_Fields issue)) = ''2'')"
  shows "WordinessAnalysis (before @ issue # after) field =
           WordinessAnalysis (before @ after) field \<and>
         AttachmentsAnalysis (before @ issue # after) = AttachmentsAnalysis (before @ after) \<and>
         SentimentScoreAnalysis (before @ issue # after) =
           SentimentScoreAnalysis (before @ after)"
  using not_eligible [OF assms]
  by (simp add: WordinessAnalysis_def AttachmentsAnalysis_def SentimentScoreAnalysis_def
      WordinessAnalysis_loop_filter AttachmentsAnalysis_loop_filter
      SentimentScoreAnalysis_loop_filter)

theorem ineligible_issue_contributes_nothing_witness:
  "WordinessAnalysis
     [example_issue ''1'' closed_directly, example_issue ''1'' via_in_progress] ''summary'' =
     ([3], [5]) \<and>
   AttachmentsAnalysis
     [example_issue ''3'' closed_directly, example_issue ''2'' closed_directly] = ([], [5]) \<and>
   SentimentScoreAnalysis
     [example_issue ''3'' closed_directly, example_issue ''2'' closed_directly] = ([1 / 2], [5])"
proof -
  have a: "\<forall>history \<in> set (Changelog_Histories (Issue_Changelog (example_issue ''1'' via_in_progress))).
      \<not> closes_from_open history"
    by (simp add: example_issue_def via_in_progress_def closes_from_open_def status_item_def)
  have b: "\<not> (Priority_ID (Fields_Priority (Issue_Fields (example_issue ''3'' closed_directly))) = ''1'' \<or>
      Priority_ID (Fields_Priority (Issue_Fields (example_issue ''3'' closed_directly))) = ''2'')"
    by (simp add: example_issue_def)
  have w: "WordinessAnalysis [example_issue ''1'' closed_directly] ''summary'' = ([3], [5])"
    by (simp add: WordinessAnalysis_def closed_directly_eligible_help isIssueHighPriority_def
        WordinessAnalysis_switch_def)
       (simp add: example_issue_def calculateNumberOfWords_def TrimSpace_def spaceEncodings_def)
  have at: "AttachmentsAnalysis [example_issue ''2'' closed_directly] = ([], [5])"
    by (simp add: AttachmentsAnalysis_def closed_directly_eligible_help isIssueHighPriority_def)
       (simp add: example_issue_def)
  have se: "SentimentScoreAnalysis [example_issue ''2'' closed_directly] = ([1 / 2], [5])"
    by (simp add: SentimentScoreAnalysis_def closed_directly_eligible_help isIssueHighPriority_def)
       (simp add: example_issue_def)
  from ineligible_issue_contributes_nothing
         [of "example_issue ''1'' via_in_progress" "[example_issue ''1'' closed_directly]" "[]"
            "''summary''"]
       ineligible_issue_contributes_nothing
         [of "example_issue ''3'' closed_directly" "[]" "[example_issue ''2'' closed_directly]"
            "''summary''"]
       w at se
  show ?thesis by (simp add: a b)
qed




text \<open>
  Claim C4. The claim asks both classifiers to return a category for every file name.
  \<^verbatim>\<open>analyze.getAttachmentType\<close> does (lemma \<open>getAttachmentType_total\<close>);
  \<^verbatim>\<open>jira.GetAttachmentType\<close> slices from index -1 when the name has no dot, and panics.
\<close>

theorem GetAttachmentType_panics_without_dot:
  "CHR ''.'' \<notin> set filename \<Longrightarrow> GetAttachmentType filename = Inl SliceBoundsOutOfRange"
  by (simp add: GetAttachmentType_def slice_from_def LastIndex_absent)

theorem GetAttachmentType_panics_without_dot_witness:
  "CHR ''.'' \<notin> set ''README'' \<and> GetAttachmentType ''README'' = Inl SliceBoundsOutOfRange"
  using GetAttachmentType_panics_without_dot [of "''README''"] by simp

text \<open>
  Claim C5, amended. \<^verbatim>\<open>analyze.getAttachmentType\<close> compares the extension exactly, without
  folding the case: with the extension being what follows the last dot, or the whole name
  when it has no dot, the category is Text for md, txt, pdf, Image for png, jpg, jpeg, gif,
  bmp, Video for mp4, avi, mkv, and Code for anything else.
\<close>

theorem getAttachmentType_by_exact_extension:
  "(filename = stem @ CHR ''.'' # ext \<or> filename = ext) \<and> CHR ''.'' \<notin> set ext \<Longrightarrow>
   getAttachmentType filename =
     Inr (if ext \<in> {''md'', ''txt'', ''pdf''} then Text
          else if ext \<in> {''png'', ''jpg'', ''jpeg'', ''gif'', ''bmp''} then Image
          else if ext \<in> {''mp4'', ''avi'', ''mkv''} then Video
          else Code)"
proof -
  assume a: "(filename = stem @ CHR ''.'' # ext \<or> filename = ext) \<and> CHR ''.'' \<notin> set ext"
  then have n: "CHR ''.'' \<notin> set ext" and "filename = stem @ CHR ''.'' # ext \<or> filename = ext"
    by blast+
  then have "getAttachmentType filename = Inr (switch_ext ext)"
    using getAttachmentType_dot [OF n, of stem] getAttachmentType_no_dot [OF n] by blast
  then show ?thesis by (simp only: switch_ext_sets)
qed

theorem getAttachmentType_by_exact_extension_witness:
  "(''shot.final.png'' = ''shot.final'' @ CHR ''.'' # ''png'' \<or> ''shot.final.png'' = ''png'') \<and>
   CHR ''.'' \<notin> set ''png'' \<and>
   getAttachmentType ''shot.final.png'' = Inr Image \<and>
   getAttachmentType ''Makefile'' = Inr Code \<and>
   getAttachmentType ''notes.txt'' = Inr Text \<and>
   getAttachmentType ''demo.mkv'' = Inr Video \<and>
   getAttachmentType ''main.go'' = Inr Code"
  using getAttachmentType_by_exact_extension [of "''shot.final.png''" "''shot.final''" "''png''"]
    getAttachmentType_by_exact_extension [of "''Makefile''" "[]" "''Makefile''"]
    getAttachmentType_by_exact_extension [of "''notes.txt''" "''notes''" "''txt''"]
    getAttachmentType_by_exact_extension [of "''demo.mkv''" "''demo''" "''mkv''"]
    getAttachmentType_by_exact_extension [of "''main.go''" "''main''" "''go''"]
  by simp

theorem extension_case_counterexample:
  "getAttachmentType ''shot.PNG'' = Inr Code \<and> getAttachmentType ''pdf'' = Inr Text"
  by (simp add: getAttachmentType_def Let_def slice_from_def LastIndex_def switch_ext_def)

text \<open>
  Claim C6, amended. When the description or a comment body begins with a line that has at
  least one character before the token Exception and at least one after it, and the next
  line starts, after optional white space, with at, goes on with at least one more character
  and is ended by a line break, \<^verbatim>\<open>HasStackTrace\<close> returns true. One such line is enough:
  the pattern repeats the frame line once or more, so the text with a single frame line is
  detected as well.
\<close>

theorem HasStackTrace_first_line:
  "doc \<in> set (texts issue) \<and>
   doc = pre @ ''Exception'' @ post @ CHR 0x0A # ws @ ''at'' @ frame @ CHR 0x0A # rest \<and>
   pre \<noteq> [] \<and> CHR 0x0A \<notin> set pre \<and> post \<noteq> [] \<and> CHR 0x0A \<notin> set post \<and>
   list_all perlSpace ws \<and> frame \<noteq> [] \<and> CHR 0x0A \<notin> set frame \<Longrightarrow>
   HasStackTrace issue = (True, None)"
proof -
  assume a: "doc \<in> set (texts issue) \<and>
   doc = pre @ ''Exception'' @ post @ CHR 0x0A # ws @ ''at'' @ frame @ CHR 0x0A # rest \<and>
   pre \<noteq> [] \<and> CHR 0x0A \<notin> set pre \<and> post \<noteq> [] \<and> CHR 0x0A \<notin> set post \<and>
   list_all perlSpace ws \<and> frame \<noteq> [] \<and> CHR 0x0A \<notin> set frame"
  then have "doc = pre @ ''Exception'' @ post @ CHR 0x0A # ws @ ''at'' @ frame @ [] @ CHR 0x0A # rest \<and>
      list_all perlSpace []"
    by simp
  with a have "matchEnds True stack_re doc \<noteq> []"
    unfolding stack_match_start by blast
  then have "search True stack_re doc" using stack_search by blast
  with a have "list_ex (search True stack_re) (texts issue)"
    unfolding list_ex_iff by blast
  then show ?thesis by (simp only: HasStackTrace_search)
qed

theorem HasStackTrace_first_line_witness:
  "HasStackTrace (issue_with_texts trace_two_frames []) = (True, None) \<and>
   HasStackTrace (issue_with_texts ''crash'' [''same here'', trace_one_frame]) = (True, None)"
proof -
  have a: "HasStackTrace (issue_with_texts trace_two_frames []) = (True, None)"
    using HasStackTrace_first_line
         [of trace_two_frames "issue_with_texts trace_two_frames []"
            "''main: ''" "'' in run''" "''  ''" "'' a.b(C.java:1)''" "''  at d.e(F.java:2)\<newline>''"]
      trace_two_frames_shape trace_parts
    by (simp only: texts_issue_with_texts list.set insert_iff simp_thms)
  have b: "HasStackTrace (issue_with_texts ''crash'' [''same here'', trace_one_frame]) = (True, None)"
    using HasStackTrace_first_line
         [of trace_one_frame "issue_with_texts ''crash'' [''same here'', trace_one_frame]"
            "''main: ''" "'' in run''" "''  ''" "'' a.b(C.java:1)''" "[]"]
      trace_one_frame_shape trace_parts
    by (simp only: texts_issue_with_texts list.set insert_iff simp_thms)
  from a b show ?thesis by blast
qed

theorem stack_trace_counterexample:
  "HasStackTrace (issue_with_texts trace_after_intro []) = (False, None) \<and>
   HasStackTrace (issue_with_texts trace_bare_exception []) = (False, None) \<and>
   HasStackTrace (issue_with_texts trace_leading_exception []) = (False, None) \<and>
   HasStackTrace (issue_with_texts trace_one_frame []) = (True, None)"
proof -
  have "\<not> search True stack_re trace_after_intro"
    unfolding trace_after_intro_def by code_simp
  moreover have "\<not> search True stack_re trace_bare_exception"
    unfolding trace_bare_exception_def by code_simp
  moreover have "\<not> search True stack_re trace_leading_exception"
    unfolding trace_leading_exception_def by code_simp
  moreover have "search True stack_re trace_one_frame"
    unfolding trace_one_frame_def by code_simp
  ultimately show ?thesis
    by (simp add: HasStackTrace_search texts_issue_with_texts)
qed




text \<open>
  Claim C8, amended. For the field selectors description, summary and comment,
  \<^verbatim>\<open>WordinessAnalysis\<close> returns two sequences of equal length whose entries at one index
  are the word count and the resolution time of the same issue, the issues being the
  eligible ones in their order. For every other selector the first sequence is empty and the
  second holds the resolution times of the eligible issues. \<^verbatim>\<open>SentimentScoreAnalysis\<close>
  returns two aligned sequences of equal length for the eligible issues that have a score.
\<close>

theorem aligned_series_by_selector:
  "(field = ''description'' \<or> field = ''summary'' \<or> field = ''comment'' \<longrightarrow>
      WordinessAnalysis issues field =
        (map (\<lambda>i. real_of_int (selected_words field i)) (filter eligible issues),
         map timeToResolve (filter eligible issues)) \<and>
      length (fst (WordinessAnalysis issues field)) =
        length (snd (WordinessAnalysis issues field))) \<and>
   (field \<noteq> ''description'' \<and> field \<noteq> ''summary'' \<and> field \<noteq> ''comment'' \<longrightarrow>
      WordinessAnalysis issues field = ([], map timeToResolve (filter eligible issues))) \<and>
   SentimentScoreAnalysis issues =
     (map (\<lambda>i. Sentiment_Score (Issue_Sentiment i))
        (filter (\<lambda>i. eligible i \<and> Sentiment_HasScore (Issue_Sentiment i)) issues),
      map timeToResolve
        (filter (\<lambda>i. eligible i \<and> Sentiment_HasScore (Issue_Sentiment i)) issues)) \<and>
   length (fst (SentimentScoreAnalysis issues)) = length (snd (SentimentScoreAnalysis issues))"
proof (intro conjI impI)
  assume "field = ''description'' \<or> field = ''summary'' \<or> field = ''comment''"
  then show "WordinessAnalysis issues field =
        (map (\<lambda>i. real_of_int (selected_words field i)) (filter eligible issues),
         map timeToResolve (filter eligible issues))"
    by (simp add: WordinessAnalysis_def WordinessAnalysis_loop_filter
        word_contribution_supported)
  then show "length (fst (WordinessAnalysis issues field)) =
        length (snd (WordinessAnalysis issues field))"
    by simp
next
  assume "field \<noteq> ''description'' \<and> field \<noteq> ''summary'' \<and> field \<noteq> ''comment''"
  then show "WordinessAnalysis issues field = ([], map timeToResolve (filter eligible issues))"
    by (simp add: WordinessAnalysis_def WordinessAnalysis_loop_filter
        word_contribution_unsupported)
next
  show "SentimentScoreAnalysis issues =
     (map (\<lambda>i. Sentiment_Score (Issue_Sentiment i))
        (filter (\<lambda>i. eligible i \<and> Sentiment_HasScore (Issue_Sentiment i)) issues),
      map timeToResolve
        (filter (\<lambda>i. eligible i \<and> Sentiment_HasScore (Issue_Sentiment i)) issues))"
    by (simp add: SentimentScoreAnalysis_def SentimentScoreAnalysis_loop_filter)
  then show "length (fst (SentimentScoreAnalysis issues)) =
        length (snd (SentimentScoreAnalysis issues))"
    by simp
qed

theorem aligned_series_by_selector_witness:
  "WordinessAnalysis
     [example_issue ''1'' closed_directly, example_issue ''1'' via_in_progress] ''summary'' =
     ([3], [5]) \<and>
   WordinessAnalysis
     [example_issue ''1'' closed_directly, example_issue ''1'' via_in_progress] ''title'' =
     ([], [5]) \<and>
   SentimentScoreAnalysis
     [example_issue ''1'' closed_directly, example_issue ''1'' via_in_progress] = ([1 / 2], [5])"
proof -
  have e1: "eligible (example_issue ''1'' closed_directly)"
    by (simp add: eligible_def closed_directly_eligible_help isIssueHighPriority_def)
       (simp add: example_issue_def)
  have "timeToResolve (example_issue ''1'' via_in_progress) = - 1"
    by (rule timeToResolve_unresolved)
       (simp add: example_issue_def via_in_progress_def closes_from_open_def status_item_def)
  then have e2: "\<not> eligible (example_issue ''1'' via_in_progress)"
    by (simp add: eligible_def)
  have w: "selected_words ''summary'' (example_issue ''1'' closed_directly) = 3"
    by (simp add: selected_words_def example_issue_def calculateNumberOfWords_def TrimSpace_def
        spaceEncodings_def)
  have s: "Sentiment_HasScore (Issue_Sentiment (example_issue ''1'' closed_directly)) \<and>
           Sentiment_Score (Issue_Sentiment (example_issue ''1'' closed_directly)) = 1 / 2"
    by (simp add: example_issue_def)
  from aligned_series_by_selector
         [of "''summary''"
            "[example_issue ''1'' closed_directly, example_issue ''1'' via_in_progress]"]
       aligned_series_by_selector
         [of "''title''"
            "[example_issue ''1'' closed_directly, example_issue ''1'' via_in_progress]"]
       e1 e2 w s closed_directly_eligible_help [of "''1''"]
  show ?thesis by simp
qed

theorem unsupported_field_counterexample:
  "length (fst (WordinessAnalysis [example_issue ''1'' closed_directly] ''title'')) \<noteq>
   length (snd (WordinessAnalysis [example_issue ''1'' closed_directly] ''title''))"
  by (simp add: WordinessAnalysis_def closed_directly_eligible_help isIssueHighPriority_def
      WordinessAnalysis_switch_def)
     (simp add: example_issue_def)

text \<open>
  Claim C9. The claim gives a blank line no word. The code counts one for it: the empty
  string and a line of spaces have word count 1, and two blank lines after two words
  raise the count from 2 to 4.
\<close>

theorem blank_line_counts_one:
  "calculateNumberOfWords [] = 1 \<and> CalculateNumberOfWords [] = 1 \<and>
   calculateNumberOfWords ''   '' = 1 \<and>
   calculateNumberOfWords ''two words'' = 2 \<and>
   calculateNumberOfWords ''two words\<newline>\<newline>'' = 4"
  by (simp add: calculateNumberOfWords_def CalculateNumberOfWords_def TrimSpace_def spaceEncodings_def)

text \<open>
  Claim C10. Both patterns compile, so \<^verbatim>\<open>containsRegex\<close> never takes its error branch for
  them: \<^verbatim>\<open>HasStepsToReproduce\<close> and \<^verbatim>\<open>HasStackTrace\<close> return a verdict and the nil error
  for every issue.
\<close>

theorem detectors_return_no_error:
  "(\<exists>re. Compile stepsExpr = Inr re) \<and> (\<exists>re. Compile stackExpr = Inr re) \<and>
   snd (HasStepsToReproduce issue) = None \<and> snd (HasStackTrace issue) = None \<and>
   (\<exists>verdict. HasStepsToReproduce issue = (verdict, None)) \<and>
   (\<exists>verdict. HasStackTrace issue = (verdict, None))"
  by (simp add: Compile_stepsExpr Compile_stackExpr HasStepsToReproduce_search
      HasStackTrace_search)

end
